theory Spec2Isabelle
  imports Complex_Main
begin

section \<open>JavaScript values\<close>

text \<open>
  A Number is an IEEE 754 double: a finite value, kept as the rational it denotes, one of
  the two infinities, the negative zero or \<^verbatim>\<open>NaN\<close> (\<open>Fin 0\<close> is the positive zero).
  The primitive values that flow through \<^verbatim>\<open>server/database.js\<close> are \<^verbatim>\<open>undefined\<close>,
  \<^verbatim>\<open>null\<close>, booleans, Numbers and strings (a \<open>char list\<close>). A missing key of an object
  reads as \<open>JUndefined\<close>.
\<close>

datatype jsnum = Fin rat | NegZero | NaN | PosInf | NegInf

datatype jsval = JUndefined | JNull | JBool bool | JNum jsnum | JStr string

text \<open>
  The test of \<^verbatim>\<open>if (v)\<close>: \<^verbatim>\<open>undefined\<close>, \<^verbatim>\<open>null\<close>, \<^verbatim>\<open>false\<close>, both zeros,
  \<^verbatim>\<open>NaN\<close> and \<^verbatim>\<open>""\<close> are falsy, every other value is truthy.
\<close>

fun truthy_num :: "jsnum \<Rightarrow> bool" where
  "truthy_num (Fin r) = (r \<noteq> 0)"
| "truthy_num NegZero = False"
| "truthy_num NaN = False"
| "truthy_num PosInf = True"
| "truthy_num NegInf = True"

fun truthy :: "jsval \<Rightarrow> bool" where
  "truthy JUndefined = False"
| "truthy JNull = False"
| "truthy (JBool b) = b"
| "truthy (JNum x) = truthy_num x"
| "truthy (JStr s) = (s \<noteq> [])"

text \<open>
  The two conversions between Numbers and strings, \<^verbatim>\<open>Number::toString\<close> and
  \<^verbatim>\<open>StringToNumber\<close>, belong to the JavaScript runtime and are parameters: every
  statement below holds for each pair of conversions, the runtime's own included.
\<close>

record runtime =
  number_to_string :: "jsnum \<Rightarrow> string"
  string_to_number :: "string \<Rightarrow> jsnum"

text \<open>String conversion inside a template literal \<^verbatim>\<open>`${v}`\<close>.\<close>

fun to_string :: "runtime \<Rightarrow> jsval \<Rightarrow> string" where
  "to_string rt JUndefined = ''undefined''"
| "to_string rt JNull = ''null''"
| "to_string rt (JBool b) = (if b then ''true'' else ''false'')"
| "to_string rt (JNum x) = number_to_string rt x"
| "to_string rt (JStr s) = s"

text \<open>The conversion \<^verbatim>\<open>ToNumber\<close> that \<^verbatim>\<open>*\<close> applies to its operands.\<close>

fun to_number :: "runtime \<Rightarrow> jsval \<Rightarrow> jsnum" where
  "to_number rt JUndefined = NaN"
| "to_number rt JNull = Fin 0"
| "to_number rt (JBool b) = (if b then Fin 1 else Fin 0)"
| "to_number rt (JNum x) = x"
| "to_number rt (JStr s) = string_to_number rt s"

section \<open>Double arithmetic\<close>

text \<open>\<open>ilog2 n\<close> is the largest \<open>k\<close> with \<open>2 ^ k \<le> n\<close>, for \<open>n \<ge> 1\<close>.\<close>

function ilog2 :: "int \<Rightarrow> nat" where
  "ilog2 n = (if n < 2 then 0 else Suc (ilog2 (n div 2)))"
  by pat_completeness auto
termination
  by (relation "measure nat") auto

declare ilog2.simps [simp del]

text \<open>\<open>clog2 n\<close> is the least \<open>k\<close> with \<open>n \<le> 2 ^ k\<close>, for \<open>n \<ge> 1\<close>.\<close>

definition clog2 :: "int \<Rightarrow> nat" where
  "clog2 n = (if n \<le> 1 then 0 else Suc (ilog2 (n - 1)))"

text \<open>The integer \<open>k\<close> with \<open>2 ^ k \<le> a < 2 ^ (k + 1)\<close>, for a rational \<open>a > 0\<close>.\<close>

definition floor_log2 :: "rat \<Rightarrow> int" where
  "floor_log2 a = (if 1 \<le> a then int (ilog2 \<lfloor>a\<rfloor>) else - int (clog2 \<lceil>1 / a\<rceil>))"

definition pow2 :: "int \<Rightarrow> rat" where
  "pow2 e = (if 0 \<le> e then 2 ^ nat e else 1 / 2 ^ nat (- e))"

text \<open>Rounding to the nearest integer, a tie going to the even one.\<close>

definition round_half_even :: "rat \<Rightarrow> int" where
  "round_half_even q =
     (let f = \<lfloor>q\<rfloor>; d = q - of_int f
      in if d < 1 / 2 then f else if 1 / 2 < d then f + 1 else if even f then f else f + 1)"

text \<open>
  The double nearest to a rational (round to nearest, ties to even): 53 significant bits,
  the least exponent of the last bit being -1074 (subnormal numbers), and an infinity
  when the rounded magnitude reaches \<open>2 ^ 1024\<close>.
\<close>

definition round_double :: "rat \<Rightarrow> jsnum" where
  "round_double r =
     (if r = 0 then Fin 0
      else
        let a = \<bar>r\<bar>;
            e = max (floor_log2 a - 52) (- 1074);
            m = round_half_even (a / pow2 e);
            v = of_int m * pow2 e
        in if 2 ^ 1024 \<le> v then (if r < 0 then NegInf else PosInf)
           else if m = 0 then (if r < 0 then NegZero else Fin 0)
           else Fin (if r < 0 then - v else v))"

text \<open>The product \<^verbatim>\<open>x * 100\<close> of a Number and the literal 100.\<close>

fun js_times_100 :: "jsnum \<Rightarrow> jsnum" where
  "js_times_100 (Fin r) = round_double (r * 100)"
| "js_times_100 NegZero = NegZero"
| "js_times_100 NaN = NaN"
| "js_times_100 PosInf = PosInf"
| "js_times_100 NegInf = NegInf"

section \<open>String primitives\<close>

definition digit_char :: "nat \<Rightarrow> char" where
  "digit_char d = char_of (48 + d)"

definition is_digit :: "char \<Rightarrow> bool" where
  "is_digit c = (48 \<le> (of_char c :: nat) \<and> (of_char c :: nat) \<le> 57)"

definition digit_val :: "char \<Rightarrow> nat" where
  "digit_val c = of_char c - 48"

text \<open>
  The string of an array length inside a template literal: a non-negative integer in
  decimal, without leading zero.
\<close>

fun show_nat :: "nat \<Rightarrow> string" where
  "show_nat n = (if n < 10 then [digit_char n] else show_nat (n div 10) @ [digit_char (n mod 10)])"

declare show_nat.simps [simp del]

text \<open>\<^verbatim>\<open>Array.prototype.join\<close> on an array of strings.\<close>

fun join :: "string \<Rightarrow> string list \<Rightarrow> string" where
  "join sep [] = []"
| "join sep [x] = x"
| "join sep (x # y # ys) = x @ sep @ join sep (y # ys)"

text \<open>\<^verbatim>\<open>s.slice(0, -2)\<close>: the string without its last two characters (empty when shorter).\<close>

definition slice_0_m2 :: "string \<Rightarrow> string" where
  "slice_0_m2 s = take (length s - 2) s"

definition nl :: string where
  "nl = [CHR 0x0A]"

section \<open>getAllProperties: the filtered, aggregated, paginated SELECT\<close>

record options =
  city :: jsval
  owner_id :: jsval
  minimum_price_per_night :: jsval
  maximum_price_per_night :: jsval
  minimum_rating :: jsval

text \<open>The local variables of \<^verbatim>\<open>getAllProperties\<close> that the option blocks update.\<close>

record builder =
  queryParams :: "jsval list"
  whereQuery :: "string list"

definition push_where :: "jsval \<Rightarrow> string \<Rightarrow> builder \<Rightarrow> builder" where
  "push_where v frag b =
     (let qp = queryParams b @ [v]
      in \<lparr>queryParams = qp,
          whereQuery = whereQuery b @ [frag @ ''$'' @ show_nat (length qp) @ '' '']\<rparr>)"

definition opt_city :: "runtime \<Rightarrow> options \<Rightarrow> builder \<Rightarrow> builder" where
  "opt_city rt opts b =
     (if truthy (city opts)
      then push_where (JStr (''%'' @ to_string rt (city opts) @ ''%'')) ''city LIKE '' b
      else b)"

definition opt_owner_id :: "options \<Rightarrow> builder \<Rightarrow> builder" where
  "opt_owner_id opts b =
     (if truthy (owner_id opts) then push_where (owner_id opts) ''owner_id = '' b else b)"

definition opt_minimum_price :: "runtime \<Rightarrow> options \<Rightarrow> builder \<Rightarrow> builder" where
  "opt_minimum_price rt opts b =
     (if truthy (minimum_price_per_night opts)
      then push_where (JNum (js_times_100 (to_number rt (minimum_price_per_night opts))))
             ''(cost_per_night) >= '' b
      else b)"

definition opt_maximum_price :: "runtime \<Rightarrow> options \<Rightarrow> builder \<Rightarrow> builder" where
  "opt_maximum_price rt opts b =
     (if truthy (maximum_price_per_night opts)
      then push_where (JNum (js_times_100 (to_number rt (maximum_price_per_night opts))))
             ''(cost_per_night) <= '' b
      else b)"

text \<open>Lines 137 to 157: the four option blocks, run in source order on empty arrays.\<close>

definition where_blocks :: "runtime \<Rightarrow> options \<Rightarrow> builder" where
  "where_blocks rt opts =
     opt_maximum_price rt opts (opt_minimum_price rt opts (opt_owner_id opts (opt_city rt opts
       \<lparr>queryParams = [], whereQuery = []\<rparr>)))"

definition base_select :: string where
  "base_select =
     ''SELECT properties.*, AVG(rating) AS average_rating'' @ nl @
     ''  FROM properties'' @ nl @
     ''  LEFT JOIN property_reviews ON properties.id = property_id ''"

definition where_clause :: "string list \<Rightarrow> string" where
  "where_clause wq = (if length wq > 0 then ''WHERE '' @ join ''AND '' wq else [])"

definition having_params :: "options \<Rightarrow> jsval list \<Rightarrow> jsval list" where
  "having_params opts qp = (if truthy (minimum_rating opts) then qp @ [minimum_rating opts] else qp)"

definition having_clause :: "options \<Rightarrow> jsval list \<Rightarrow> string" where
  "having_clause opts qp =
     (if truthy (minimum_rating opts)
      then ''HAVING AVG(rating) > $'' @ show_nat (length (having_params opts qp)) @ '' ''
      else [])"

text \<open>The default parameter \<^verbatim>\<open>limit = 10\<close> applies when the argument is \<^verbatim>\<open>undefined\<close>.\<close>

definition default_limit :: "jsval \<Rightarrow> jsval" where
  "default_limit limit = (if limit = JUndefined then JNum (Fin 10) else limit)"

text \<open>
  The pair \<^verbatim>\<open>(queryString, queryParams)\<close> that \<^verbatim>\<open>getAllProperties\<close> hands to
  \<^verbatim>\<open>pool.query\<close> (lines 124 to 179), for an options object.
\<close>

definition getAllProperties_query :: "runtime \<Rightarrow> options \<Rightarrow> jsval \<Rightarrow> string \<times> jsval list" where
  "getAllProperties_query rt opts limit =
     (let b = where_blocks rt opts;
          qs1 = base_select @ where_clause (whereQuery b);
          qs2 = qs1 @ ''GROUP BY properties.id '';
          qp2 = having_params opts (queryParams b);
          qs3 = qs2 @ having_clause opts (queryParams b);
          qp3 = qp2 @ [default_limit limit];
          qs4 = qs3 @ ''ORDER BY cost_per_night'' @ nl @ ''  LIMIT $'' @ show_nat (length qp3) @ '';''
      in (qs4, qp3))"

section \<open>addProperty: the INSERT built from an object's keys\<close>

text \<open>
  An object is the list of its key/value pairs in the order \<^verbatim>\<open>Object.keys\<close> yields them;
  \<^verbatim>\<open>property[key]\<close> reads the value stored under a key, \<^verbatim>\<open>undefined\<close> when there is none.
\<close>

type_synonym property = "(string \<times> jsval) list"

definition object_keys :: "property \<Rightarrow> string list" where
  "object_keys p = map fst p"

definition get_prop :: "property \<Rightarrow> string \<Rightarrow> jsval" where
  "get_prop p k = (case map_of p k of None \<Rightarrow> JUndefined | Some v \<Rightarrow> v)"

text \<open>The \<^verbatim>\<open>for (let key of keys)\<close> loop of lines 206 to 209 on \<^verbatim>\<open>(queryParams, valueIndex)\<close>.\<close>

fun values_loop :: "property \<Rightarrow> string list \<Rightarrow> jsval list \<times> string \<Rightarrow> jsval list \<times> string" where
  "values_loop p [] (qp, vi) = (qp, vi)"
| "values_loop p (key # keys) (qp, vi) =
     (let qp' = qp @ [get_prop p key]
      in values_loop p keys (qp', vi @ ''$'' @ show_nat (length qp') @ '', ''))"

text \<open>
  The pair handed to \<^verbatim>\<open>pool.query\<close> by \<^verbatim>\<open>addProperty\<close> (lines 194 to 216), for an
  object.
\<close>

definition addProperty_query :: "property \<Rightarrow> string \<times> jsval list" where
  "addProperty_query p =
     (let keys = object_keys p;
          qs = ''INSERT INTO properties ('' @ join '', '' keys @ '') '' @ nl @ ''  VALUES ('';
          (qp, valueIndex) = values_loop p keys ([], [])
      in (qs @ slice_0_m2 valueIndex @ '')'' @ nl @ ''  RETURNING *;'', qp))"

section \<open>Running a query: arguments, exceptions and the promise chain\<close>

text \<open>
  A settled promise. \<^verbatim>\<open>pool.query(text, args)\<close> belongs to the \<^verbatim>\<open>pg\<close> driver and is a
  parameter: it fulfils with a result object holding \<^verbatim>\<open>rows\<close>, or rejects with an error
  whose \<^verbatim>\<open>message\<close> is the string carried by \<open>Rejected\<close>.
\<close>

datatype 'a promise = Fulfilled 'a | Rejected string

datatype 'a js_result = RUndefined | RValue 'a

type_synonym row = "(string \<times> jsval) list"

record query_result =
  rows :: "row list"

type_synonym pool = "string \<Rightarrow> jsval list \<Rightarrow> query_result promise"

text \<open>
  What a caller passes where a function expects an object: an object, or \<^verbatim>\<open>undefined\<close>
  (also when the argument is left out) or \<^verbatim>\<open>null\<close>. Reading a property of
  \<^verbatim>\<open>undefined\<close> or \<^verbatim>\<open>null\<close>, and \<^verbatim>\<open>Object.keys\<close> of them, throws a
  \<^verbatim>\<open>TypeError\<close>; the functions catch nothing outside the promise chain, so the
  exception leaves the function before any query is made.
\<close>

datatype 'a js_arg = ArgUndefined | ArgNull | ArgObject 'a

datatype js_error = TypeError

text \<open>\<^verbatim>\<open>.then(f)\<close> for a callback that does not throw.\<close>

definition then_p :: "('a \<Rightarrow> 'b) \<Rightarrow> 'a promise \<Rightarrow> 'b promise" where
  "then_p f p = (case p of Fulfilled v \<Rightarrow> Fulfilled (f v) | Rejected e \<Rightarrow> Rejected e)"

text \<open>
  \<^verbatim>\<open>.catch((err) => { console.log(err.message); })\<close>: the handler writes the message to the
  console and returns nothing, so the promise it yields is fulfilled with \<^verbatim>\<open>undefined\<close>.
  The console is the list of lines written so far.
\<close>

definition catch_log :: "'a js_result promise \<Rightarrow> string list \<Rightarrow> 'a js_result promise \<times> string list" where
  "catch_log p console =
     (case p of
        Fulfilled v \<Rightarrow> (Fulfilled v, console)
      | Rejected e \<Rightarrow> (Fulfilled RUndefined, console @ [e]))"




text \<open>\<^verbatim>\<open>addUser\<close> (lines 71 to 84) reads three properties of its argument.\<close>

record user =
  name :: jsval
  email :: jsval
  password :: jsval




text \<open>
  \<^verbatim>\<open>addProperty\<close> (lines 194 to 223): \<^verbatim>\<open>Object.keys(property)\<close> on line 196 throws
  when \<^verbatim>\<open>property\<close> is \<^verbatim>\<open>undefined\<close> or \<^verbatim>\<open>null\<close>.
\<close>

definition addProperty ::
  "pool \<Rightarrow> property js_arg \<Rightarrow> string list \<Rightarrow>
     js_error + row list js_result promise \<times> string list" where
  "addProperty pool_query arg console =
     (case arg of
        ArgObject p \<Rightarrow>
          (let (queryString, queryParams) = addProperty_query p
           in Inr (catch_log (then_p (\<lambda>res. RValue (rows res))
                     (pool_query queryString queryParams)) console))
      | _ \<Rightarrow> Inl TypeError)"

section \<open>Reading a generated text back\<close>

definition read_nat :: "string \<Rightarrow> nat" where
  "read_nat ds = foldl (\<lambda>a c. 10 * a + digit_val c) 0 ds"

text \<open>
  The positional placeholders of a text, left to right: each \<^verbatim>\<open>$\<close> followed by a maximal
  non-empty run of decimal digits, read as a number.
\<close>

function placeholders :: "string \<Rightarrow> nat list" where
  "placeholders [] = []"
| "placeholders (c # cs) =
     (if c = CHR ''$'' \<and> takeWhile is_digit cs \<noteq> []
      then read_nat (takeWhile is_digit cs) # placeholders (dropWhile is_digit cs)
      else placeholders cs)"
  by pat_completeness auto
termination
  by (relation "measure length") (auto simp: length_dropWhile_le less_Suc_eq_le)

text \<open>Whether \<open>w\<close> occurs in \<open>s\<close> as a contiguous block.\<close>

fun contains :: "string \<Rightarrow> string \<Rightarrow> bool" where
  "contains w [] = (w = [])"
| "contains w (c # cs) = (take (length w) (c # cs) = w \<or> contains w cs)"

section \<open>The filter as the specification words it\<close>

text \<open>
  Following the specification's words, with a field counted as present when it passes the
  source's own test \<^verbatim>\<open>if (options.f)\<close>: each such field contributes one predicate
  fragment and one argument, in the fixed order city, owner identifier, minimum price,
  maximum price; a price argument is the price times 100.
\<close>

definition price_filter :: "runtime \<Rightarrow> string \<Rightarrow> jsval \<Rightarrow> (string \<times> jsval) list" where
  "price_filter rt frag v =
     (if truthy v then [(frag, JNum (js_times_100 (to_number rt v)))] else [])"

definition present_filters :: "runtime \<Rightarrow> options \<Rightarrow> (string \<times> jsval) list" where
  "present_filters rt opts =
     (if truthy (city opts)
      then [(''city LIKE '', JStr (''%'' @ to_string rt (city opts) @ ''%''))] else []) @
     (if truthy (owner_id opts) then [(''owner_id = '', owner_id opts)] else []) @
     price_filter rt ''(cost_per_night) >= '' (minimum_price_per_night opts) @
     price_filter rt ''(cost_per_night) <= '' (maximum_price_per_night opts)"

text \<open>The i-th fragment (from 0) followed by placeholder number i + 1 and a space.\<close>

definition numbered_predicates :: "string list \<Rightarrow> string list" where
  "numbered_predicates frags =
     map (\<lambda>(i, frag). frag @ ''$'' @ show_nat (Suc i) @ '' '') (enumerate 0 frags)"

text \<open>
  The predicates behind \<^verbatim>\<open>WHERE\<close>, each but the first with \<^verbatim>\<open>AND\<close> before it; nothing
  at all for no predicate.
\<close>

definition where_and :: "string list \<Rightarrow> string" where
  "where_and ps =
     (case ps of [] \<Rightarrow> [] | p # qs \<Rightarrow> ''WHERE '' @ p @ concat (map (\<lambda>q. ''AND '' @ q) qs))"

text \<open>How many of the tests in a list succeed.\<close>

definition count_true :: "bool list \<Rightarrow> nat" where
  "count_true bs = length (filter id bs)"

definition no_options :: options where
  "no_options = \<lparr>city = JUndefined, owner_id = JUndefined, minimum_price_per_night = JUndefined,
                  maximum_price_per_night = JUndefined, minimum_rating = JUndefined\<rparr>"

text \<open>The placeholder with number \<open>i\<close>, as \<^verbatim>\<open>`$${queryParams.length}`\<close> writes it.\<close>

definition placeholder :: "nat \<Rightarrow> string" where
  "placeholder i = ''$'' @ show_nat i"

section \<open>What the database does with the city predicate\<close>



section \<open>Pools and a runtime for concrete runs\<close>

definition failing_pool :: pool where
  "failing_pool = (\<lambda>text args. Rejected ''Connection terminated unexpectedly'')"

definition empty_pool :: pool where
  "empty_pool = (\<lambda>text args. Fulfilled \<lparr>rows = []\<rparr>)"

text \<open>
  The concrete runs below pass a string where a string is used and a Number where a Number
  is used, so neither conversion is called in them and any pair of conversions serves.
\<close>

definition idle_runtime :: runtime where
  "idle_runtime = \<lparr>number_to_string = (\<lambda>x. ''NaN''), string_to_number = (\<lambda>s. NaN)\<rparr>"

section \<open>Rounding is exact on the integers of 53 bits\<close>

lemma ilog2_bounds: "1 \<le> n \<Longrightarrow> 2 ^ ilog2 n \<le> n \<and> n < 2 ^ Suc (ilog2 n)"
proof (induction n rule: ilog2.induct)
  case (1 n)
  show ?case
  proof (cases "n < 2")
    case True
    with "1.prems" show ?thesis by (simp add: ilog2.simps [of n])
  next
    case False
    then have "1 \<le> n div 2" by simp
    with "1.IH" False have ih: "2 ^ ilog2 (n div 2) \<le> n div 2" "n div 2 < 2 ^ Suc (ilog2 (n div 2))"
      by simp_all
    from False have s: "ilog2 n = Suc (ilog2 (n div 2))"
      by (simp add: ilog2.simps [of n])
    from ih(1) have "2 * 2 ^ ilog2 (n div 2) \<le> 2 * (n div 2)" by simp
    also have "\<dots> \<le> n" by simp
    finally have lo: "2 ^ ilog2 n \<le> n" by (simp add: s)
    from ih(2) have "n div 2 + 1 \<le> 2 ^ Suc (ilog2 (n div 2))" by simp
    then have "2 * (n div 2) + 2 \<le> 2 * 2 ^ Suc (ilog2 (n div 2))" by simp
    moreover have "n < 2 * (n div 2) + 2" by presburger
    ultimately have "n < 2 * 2 ^ Suc (ilog2 (n div 2))" by linarith
    then have hi: "n < 2 ^ Suc (ilog2 n)" by (simp add: s)
    from lo hi show ?thesis by simp
  qed
qed

lemma round_half_even_of_int [simp]: "round_half_even (of_int z) = z"
  unfolding round_half_even_def Let_def by simp

lemma round_double_scaled:
  assumes a: "0 < a" and e: "max (floor_log2 a - 52) (- 1074) = e"
    and m: "a / pow2 e = of_int m" and b: "a < 2 ^ 1024"
  shows "round_double a = Fin a \<and> round_double (- a) = Fin (- a)"
proof -
  have p: "pow2 e \<noteq> 0" by (simp add: pow2_def)
  from m p have v: "of_int m * pow2 e = a"
    by (simp add: field_simps)
  from a v have m0: "m \<noteq> 0" by auto
  from a b e m v m0 show ?thesis
    by (simp add: round_double_def Let_def)
qed

lemma round_double_int_exact:
  assumes "\<bar>k\<bar> \<le> 2 ^ 53"
  shows "round_double (of_int k) = Fin (of_int k)"
proof (cases "k = 0")
  case True
  then show ?thesis by (simp add: round_double_def)
next
  case False
  define n where "n = \<bar>k\<bar>"
  define L where "L = ilog2 n"
  from False have n1: "1 \<le> n" by (simp add: n_def)
  from assms have n53: "n \<le> 2 ^ 53" by (simp add: n_def)
  from ilog2_bounds [OF n1] have lo: "2 ^ L \<le> n" and hi: "n < 2 ^ Suc L"
    by (simp_all add: L_def)
  have fl: "floor_log2 (of_int n) = int L"
    using n1 by (simp add: floor_log2_def L_def)
  have L53: "L \<le> 53"
  proof (rule ccontr)
    assume "\<not> L \<le> 53"
    then have "54 \<le> L" by simp
    then have "(2::int) ^ 54 \<le> 2 ^ L" by (rule power_increasing) simp
    with lo n53 show False by simp
  qed
  have a0: "(0::rat) < of_int n" using n1 by simp
  have b: "(of_int n :: rat) < 2 ^ 1024"
  proof -
    have "(of_int n :: rat) \<le> of_int (2 ^ 53)" using n53 by (simp only: of_int_le_iff)
    also have "\<dots> < 2 ^ 1024" by simp
    finally show ?thesis .
  qed
  have e: "max (floor_log2 (of_int n) - 52) (- 1074) = int L - 52"
    by (simp add: fl)
  have "\<exists>m. (of_int n :: rat) / pow2 (int L - 52) = of_int m"
  proof (cases "L \<le> 52")
    case True
    then have "pow2 (int L - 52) = 1 / 2 ^ (52 - L)"
      by (cases "L = 52") (simp_all add: pow2_def nat_diff_distrib')
    then have "(of_int n :: rat) / pow2 (int L - 52) = of_int (n * 2 ^ (52 - L))"
      by simp
    then show ?thesis ..
  next
    case False
    with L53 have L: "L = 53" by simp
    with lo n53 have n: "n = 2 ^ 53" by simp
    have "pow2 (int L - 52) = 2" by (simp add: L pow2_def)
    then have "(of_int n :: rat) / pow2 (int L - 52) = of_int (2 ^ 52)"
      by (simp add: n)
    then show ?thesis ..
  qed
  then obtain m where m: "(of_int n :: rat) / pow2 (int L - 52) = of_int m" ..
  from round_double_scaled [OF a0 e m b]
  have r: "round_double (of_int n) = Fin (of_int n)" "round_double (- of_int n) = Fin (- of_int n)"
    by simp_all
  show ?thesis
  proof (cases "0 \<le> k")
    case True
    then have "k = n" by (simp add: n_def)
    with r(1) show ?thesis by simp
  next
    case False
    then have "k = - n" by (simp add: n_def)
    with r(2) show ?thesis by simp
  qed
qed

lemma times_100_int:
  "\<bar>n * 100\<bar> \<le> 2 ^ 53 \<Longrightarrow> js_times_100 (Fin (of_int n)) = Fin (of_int (n * 100))"
  using round_double_int_exact [of "n * 100"] by simp

lemma times_100_inexact:
  "js_times_100 (Fin 9007199254740989) = Fin 900719925474098944"
  by code_simp

lemma round_double_small:
  "round_double 5000 = Fin 5000" "round_double 12000 = Fin 12000" "round_double 9000 = Fin 9000"
  using round_double_int_exact [of 5000] round_double_int_exact [of 12000]
    round_double_int_exact [of 9000]
  by simp_all

section \<open>Digits and placeholders\<close>

lemma digit_val_digit_char: "d < 10 \<Longrightarrow> digit_val (digit_char d) = d"
  unfolding digit_val_def digit_char_def by simp

lemma is_digit_digit_char: "d < 10 \<Longrightarrow> is_digit (digit_char d)"
  unfolding is_digit_def digit_char_def by simp

lemma show_nat_digits: "\<forall>c\<in>set (show_nat n). is_digit c"
proof (induction n rule: show_nat.induct)
  case (1 n)
  show ?case
  proof (cases "n < 10")
    case True
    then show ?thesis by (simp add: show_nat.simps [of n] is_digit_digit_char)
  next
    case False
    with 1 show ?thesis by (simp add: show_nat.simps [of n] is_digit_digit_char)
  qed
qed

lemma show_nat_not_Nil [simp]: "show_nat n \<noteq> []"
  by (subst show_nat.simps) simp

lemma read_nat_snoc: "read_nat (ds @ [c]) = 10 * read_nat ds + digit_val c"
  by (simp add: read_nat_def)

lemma read_nat_show_nat [simp]: "read_nat (show_nat n) = n"
proof (induction n rule: show_nat.induct)
  case (1 n)
  show ?case
  proof (cases "n < 10")
    case True
    then show ?thesis by (simp add: show_nat.simps [of n] read_nat_def digit_val_digit_char)
  next
    case False
    with 1 have "read_nat (show_nat (n div 10)) = n div 10" by simp
    with False show ?thesis
      by (simp add: show_nat.simps [of n] read_nat_snoc digit_val_digit_char)
  qed
qed

lemma show_nat_small:
  "show_nat (Suc 0) = ''1''" "show_nat 1 = ''1''" "show_nat 2 = ''2''" "show_nat 3 = ''3''"
  "show_nat 4 = ''4''" "show_nat 5 = ''5''" "show_nat 6 = ''6''"
  "show_nat (Suc (Suc 0)) = ''2''" "show_nat (Suc (Suc (Suc 0))) = ''3''"
  "show_nat (Suc (Suc (Suc (Suc 0)))) = ''4''"
  "show_nat (Suc (Suc (Suc (Suc (Suc 0))))) = ''5''"
  "show_nat (Suc (Suc (Suc (Suc (Suc (Suc 0)))))) = ''6''"
  by code_simp+

lemma takeWhile_show_nat [simp]:
  "\<not> is_digit c \<Longrightarrow> takeWhile is_digit (show_nat n @ c # r) = show_nat n"
  using show_nat_digits [of n] by (simp add: takeWhile_tail)

lemma dropWhile_show_nat [simp]:
  "\<not> is_digit c \<Longrightarrow> dropWhile is_digit (show_nat n @ c # r) = c # r"
  using show_nat_digits [of n] by simp

lemma not_digit_chars [simp]:
  "\<not> is_digit (CHR '' '')" "\<not> is_digit (CHR '';'')" "\<not> is_digit (CHR '','')"
  "\<not> is_digit (CHR '')'')" "\<not> is_digit (CHR ''$'')"
  unfolding is_digit_def by simp_all

lemma placeholders_no_dollar: "CHR ''$'' \<notin> set a \<Longrightarrow> placeholders (a @ b) = placeholders b"
  by (induction a) auto

lemma placeholders_dollar [simp]:
  "\<not> is_digit c \<Longrightarrow> placeholders (CHR ''$'' # show_nat n @ c # r) = n # placeholders (c # r)"
  by simp

section \<open>The option blocks in closed form\<close>

lemma numbered_predicates_snoc:
  "numbered_predicates (frags @ [frag]) =
     numbered_predicates frags @ [frag @ ''$'' @ show_nat (Suc (length frags)) @ '' '']"
  by (simp add: numbered_predicates_def enumerate_append_eq)

lemma push_where_built:
  "push_where v frag \<lparr>queryParams = map snd fs, whereQuery = numbered_predicates (map fst fs)\<rparr> =
     \<lparr>queryParams = map snd (fs @ [(frag, v)]),
      whereQuery = numbered_predicates (map fst (fs @ [(frag, v)]))\<rparr>"
  by (simp add: push_where_def Let_def numbered_predicates_snoc)

lemma where_blocks_eq:
  "where_blocks rt opts =
     \<lparr>queryParams = map snd (present_filters rt opts),
      whereQuery = numbered_predicates (map fst (present_filters rt opts))\<rparr>"
proof -
  let ?B = "\<lambda>fs. \<lparr>queryParams = map snd fs, whereQuery = numbered_predicates (map fst fs)\<rparr>"
  define f1 where "f1 =
    (if truthy (city opts) then [(''city LIKE '', JStr (''%'' @ to_string rt (city opts) @ ''%''))] else [])"
  define f2 where "f2 =
    f1 @ (if truthy (owner_id opts) then [(''owner_id = '', owner_id opts)] else [])"
  define f3 where "f3 = f2 @ price_filter rt ''(cost_per_night) >= '' (minimum_price_per_night opts)"
  define f4 where "f4 = f3 @ price_filter rt ''(cost_per_night) <= '' (maximum_price_per_night opts)"
  have e0: "\<lparr>queryParams = [], whereQuery = []\<rparr> = ?B []"
    by (simp add: numbered_predicates_def)
  have e1: "opt_city rt opts (?B []) = ?B f1"
    unfolding opt_city_def f1_def using push_where_built [of _ _ "[]"] by simp
  have e2: "opt_owner_id opts (?B f1) = ?B f2"
    unfolding opt_owner_id_def f2_def using push_where_built [of _ _ f1] by simp
  have e3: "opt_minimum_price rt opts (?B f2) = ?B f3"
    unfolding opt_minimum_price_def f3_def price_filter_def using push_where_built [of _ _ f2]
    by simp
  have e4: "opt_maximum_price rt opts (?B f3) = ?B f4"
    unfolding opt_maximum_price_def f4_def price_filter_def using push_where_built [of _ _ f3]
    by simp
  have "f4 = present_filters rt opts"
    by (simp add: f4_def f3_def f2_def f1_def present_filters_def)
  then show ?thesis
    unfolding where_blocks_def e0 e1 e2 e3 e4 by simp
qed

section \<open>Properties of the generated SELECT\<close>

lemma query_closed:
  "getAllProperties_query rt opts limit =
     (base_select @ where_clause (numbered_predicates (map fst (present_filters rt opts))) @
      ''GROUP BY properties.id '' @ having_clause opts (map snd (present_filters rt opts)) @
      ''ORDER BY cost_per_night'' @ nl @ ''  LIMIT $'' @
      show_nat (Suc (length (having_params opts (map snd (present_filters rt opts))))) @ '';'',
      having_params opts (map snd (present_filters rt opts)) @ [default_limit limit])"
  by (simp add: getAllProperties_query_def Let_def where_blocks_eq)

lemma price_filter_frags:
  "map fst (price_filter rt f p) = (if truthy p then [f] else [])"
  by (simp add: price_filter_def)

lemma length_price_filter:
  "length (price_filter rt f p) = (if truthy p then 1 else 0)"
  by (simp add: price_filter_def)

lemma present_frags:
  "map fst (present_filters rt opts) =
     (if truthy (city opts) then [''city LIKE ''] else []) @
     (if truthy (owner_id opts) then [''owner_id = ''] else []) @
     (if truthy (minimum_price_per_night opts) then [''(cost_per_night) >= ''] else []) @
     (if truthy (maximum_price_per_night opts) then [''(cost_per_night) <= ''] else [])"
  by (simp add: present_filters_def price_filter_frags)




lemma length_present_filters:
  "length (present_filters rt opts) =
     count_true [truthy (city opts), truthy (owner_id opts),
                 truthy (minimum_price_per_night opts), truthy (maximum_price_per_night opts)]"
  by (simp add: present_filters_def count_true_def length_price_filter)

lemma length_numbered_predicates [simp]: "length (numbered_predicates fs) = length fs"
  by (simp add: numbered_predicates_def)

lemma present_filters_none:
  "\<not> truthy (city opts) \<Longrightarrow> \<not> truthy (owner_id opts) \<Longrightarrow>
   \<not> truthy (minimum_price_per_night opts) \<Longrightarrow> \<not> truthy (maximum_price_per_night opts) \<Longrightarrow>
   present_filters rt opts = []"
  by (simp add: present_filters_def price_filter_def)

lemma no_where_text:
  "\<not> contains ''WHERE'' (base_select @ ''GROUP BY properties.id ORDER BY cost_per_night'' @ nl @ ''  LIMIT $1;'')"
  by (simp add: base_select_def nl_def)

lemma no_having_text:
  "\<not> contains ''HAVING'' (base_select @ ''GROUP BY properties.id ORDER BY cost_per_night'' @ nl @ ''  LIMIT $1;'')"
  by (simp add: base_select_def nl_def)

lemma join_concat: "join sep (p # qs) = p @ concat (map (\<lambda>q. sep @ q) qs)"
  by (induction qs arbitrary: p) simp_all

lemma where_clause_and: "where_clause ps = where_and ps"
proof (cases ps)
  case Nil
  then show ?thesis by (simp add: where_clause_def where_and_def)
next
  case (Cons p qs)
  have "where_clause (p # qs) = ''WHERE '' @ join ''AND '' (p # qs)"
    by (simp add: where_clause_def)
  also have "\<dots> = ''WHERE '' @ p @ concat (map (\<lambda>q. ''AND '' @ q) qs)"
    by (simp only: join_concat)
  also have "\<dots> = where_and (p # qs)"
    by (simp only: where_and_def list.case)
  finally show ?thesis by (simp only: Cons)
qed

lemma params_closed:
  "snd (getAllProperties_query rt opts limit) =
     map snd (present_filters rt opts) @
     (if truthy (minimum_rating opts) then [minimum_rating opts] else []) @ [default_limit limit]"
  by (simp add: query_closed having_params_def)

text \<open>
  Claim C3, as amended. The option blocks append one predicate and one argument for each
  field that passes the test \<^verbatim>\<open>if (options.f)\<close>, that is, holds a truthy value, in the
  order city, owner identifier, minimum price, maximum price, the predicates numbered by
  their position; behind \<^verbatim>\<open>WHERE\<close> each predicate but the first has \<^verbatim>\<open>AND\<close> before
  it; and when no field at all is truthy the text has no \<^verbatim>\<open>WHERE\<close> and the limit is
  the only argument. The texts for city with minimum price, and for all four fields, are
  written out.
\<close>

theorem predicates_per_truthy_field:
  "where_blocks rt opts =
     \<lparr>queryParams = map snd (present_filters rt opts),
      whereQuery = numbered_predicates (map fst (present_filters rt opts))\<rparr>
   \<and> length (whereQuery (where_blocks rt opts)) =
       count_true [truthy (city opts), truthy (owner_id opts),
                   truthy (minimum_price_per_night opts), truthy (maximum_price_per_night opts)]
   \<and> length (queryParams (where_blocks rt opts)) = length (whereQuery (where_blocks rt opts))
   \<and> fst (getAllProperties_query rt opts limit) =
       base_select @ where_and (numbered_predicates (map fst (present_filters rt opts))) @
       ''GROUP BY properties.id '' @ having_clause opts (map snd (present_filters rt opts)) @
       ''ORDER BY cost_per_night'' @ nl @ ''  LIMIT $'' @
       show_nat (length (snd (getAllProperties_query rt opts limit))) @ '';''
   \<and> (truthy (city opts) \<and> \<not> truthy (owner_id opts) \<and>
      truthy (minimum_price_per_night opts) \<and> \<not> truthy (maximum_price_per_night opts) \<and>
      \<not> truthy (minimum_rating opts) \<longrightarrow>
        getAllProperties_query rt opts limit =
          (base_select @ ''WHERE city LIKE $1 AND (cost_per_night) >= $2 '' @
           ''GROUP BY properties.id ORDER BY cost_per_night'' @ nl @ ''  LIMIT $3;'',
           [JStr (''%'' @ to_string rt (city opts) @ ''%''),
            JNum (js_times_100 (to_number rt (minimum_price_per_night opts))),
            default_limit limit]))
   \<and> (truthy (city opts) \<and> truthy (owner_id opts) \<and>
      truthy (minimum_price_per_night opts) \<and> truthy (maximum_price_per_night opts) \<and>
      \<not> truthy (minimum_rating opts) \<longrightarrow>
        getAllProperties_query rt opts limit =
          (base_select @ ''WHERE city LIKE $1 AND owner_id = $2 AND (cost_per_night) >= $3 '' @
           ''AND (cost_per_night) <= $4 GROUP BY properties.id ORDER BY cost_per_night'' @ nl @
           ''  LIMIT $5;'',
           [JStr (''%'' @ to_string rt (city opts) @ ''%''), owner_id opts,
            JNum (js_times_100 (to_number rt (minimum_price_per_night opts))),
            JNum (js_times_100 (to_number rt (maximum_price_per_night opts))),
            default_limit limit]))
   \<and> (\<not> truthy (city opts) \<and> \<not> truthy (owner_id opts) \<and>
      \<not> truthy (minimum_price_per_night opts) \<and> \<not> truthy (maximum_price_per_night opts) \<and>
      \<not> truthy (minimum_rating opts) \<longrightarrow>
        getAllProperties_query rt opts limit =
          (base_select @ ''GROUP BY properties.id ORDER BY cost_per_night'' @ nl @ ''  LIMIT $1;'',
           [default_limit limit])
        \<and> \<not> contains ''WHERE'' (fst (getAllProperties_query rt opts limit)))"
proof (intro conjI impI)
  show "where_blocks rt opts =
     \<lparr>queryParams = map snd (present_filters rt opts),
      whereQuery = numbered_predicates (map fst (present_filters rt opts))\<rparr>"
    by (rule where_blocks_eq)
  show "length (whereQuery (where_blocks rt opts)) =
       count_true [truthy (city opts), truthy (owner_id opts),
                   truthy (minimum_price_per_night opts), truthy (maximum_price_per_night opts)]"
    by (simp add: where_blocks_eq length_present_filters)
  show "length (queryParams (where_blocks rt opts)) = length (whereQuery (where_blocks rt opts))"
    by (simp add: where_blocks_eq)
  show "fst (getAllProperties_query rt opts limit) =
       base_select @ where_and (numbered_predicates (map fst (present_filters rt opts))) @
       ''GROUP BY properties.id '' @ having_clause opts (map snd (present_filters rt opts)) @
       ''ORDER BY cost_per_night'' @ nl @ ''  LIMIT $'' @
       show_nat (length (snd (getAllProperties_query rt opts limit))) @ '';''"
    by (simp add: query_closed where_clause_and)
next
  assume "truthy (city opts) \<and> \<not> truthy (owner_id opts) \<and>
      truthy (minimum_price_per_night opts) \<and> \<not> truthy (maximum_price_per_night opts) \<and>
      \<not> truthy (minimum_rating opts)"
  then show "getAllProperties_query rt opts limit =
          (base_select @ ''WHERE city LIKE $1 AND (cost_per_night) >= $2 '' @
           ''GROUP BY properties.id ORDER BY cost_per_night'' @ nl @ ''  LIMIT $3;'',
           [JStr (''%'' @ to_string rt (city opts) @ ''%''),
            JNum (js_times_100 (to_number rt (minimum_price_per_night opts))),
            default_limit limit])"
    by (simp add: query_closed present_filters_def price_filter_def numbered_predicates_def
        where_clause_def having_clause_def having_params_def show_nat_small)
next
  assume "truthy (city opts) \<and> truthy (owner_id opts) \<and>
      truthy (minimum_price_per_night opts) \<and> truthy (maximum_price_per_night opts) \<and>
      \<not> truthy (minimum_rating opts)"
  then show "getAllProperties_query rt opts limit =
          (base_select @ ''WHERE city LIKE $1 AND owner_id = $2 AND (cost_per_night) >= $3 '' @
           ''AND (cost_per_night) <= $4 GROUP BY properties.id ORDER BY cost_per_night'' @ nl @
           ''  LIMIT $5;'',
           [JStr (''%'' @ to_string rt (city opts) @ ''%''), owner_id opts,
            JNum (js_times_100 (to_number rt (minimum_price_per_night opts))),
            JNum (js_times_100 (to_number rt (maximum_price_per_night opts))),
            default_limit limit])"
    by (simp add: query_closed present_filters_def price_filter_def numbered_predicates_def
        where_clause_def having_clause_def having_params_def show_nat_small)
next
  assume a: "\<not> truthy (city opts) \<and> \<not> truthy (owner_id opts) \<and>
      \<not> truthy (minimum_price_per_night opts) \<and> \<not> truthy (maximum_price_per_night opts) \<and>
      \<not> truthy (minimum_rating opts)"
  then have e: "present_filters rt opts = []"
    by (simp add: present_filters_none)
  from a e show q: "getAllProperties_query rt opts limit =
          (base_select @ ''GROUP BY properties.id ORDER BY cost_per_night'' @ nl @ ''  LIMIT $1;'',
           [default_limit limit])"
    by (simp add: query_closed where_clause_def having_clause_def having_params_def
        numbered_predicates_def show_nat_small)
  show "\<not> contains ''WHERE'' (fst (getAllProperties_query rt opts limit))"
    unfolding q fst_conv by (rule no_where_text)
qed

theorem predicates_per_truthy_field_witness:
  "getAllProperties_query idle_runtime no_options (JNum (Fin 7)) =
     (base_select @ ''GROUP BY properties.id ORDER BY cost_per_night'' @ nl @ ''  LIMIT $1;'',
      [JNum (Fin 7)])
   \<and> getAllProperties_query idle_runtime
       (no_options\<lparr>city := JStr ''van'', minimum_price_per_night := JNum (Fin 50)\<rparr>) (JNum (Fin 7)) =
     (base_select @ ''WHERE city LIKE $1 AND (cost_per_night) >= $2 '' @
      ''GROUP BY properties.id ORDER BY cost_per_night'' @ nl @ ''  LIMIT $3;'',
      [JStr ''%van%'', JNum (Fin 5000), JNum (Fin 7)])
   \<and> where_blocks idle_runtime
       (no_options\<lparr>city := JStr ''van'', minimum_price_per_night := JNum (Fin 50)\<rparr>) =
     \<lparr>queryParams = [JStr ''%van%'', JNum (Fin 5000)],
      whereQuery = [''city LIKE $1 '', ''(cost_per_night) >= $2 '']\<rparr>"
  using predicates_per_truthy_field [of idle_runtime no_options "JNum (Fin 7)"]
    predicates_per_truthy_field
      [of idle_runtime "no_options\<lparr>city := JStr ''van'', minimum_price_per_night := JNum (Fin 50)\<rparr>"
          "JNum (Fin 7)"]
  by (simp add: query_closed where_blocks_eq no_options_def default_limit_def present_filters_def
      price_filter_def numbered_predicates_def where_clause_def where_and_def having_clause_def
      having_params_def count_true_def show_nat_small round_double_small)

text \<open>
  Claim C3 as stated, one predicate and one argument per present field, fails: a filter
  that supplies the owner identifier 0 and the maximum price 0 gets no predicate and no
  argument for either, only the limit.
\<close>

theorem supplied_zero_fields_counterexample:
  "where_blocks idle_runtime
     (no_options\<lparr>owner_id := JNum (Fin 0), maximum_price_per_night := JNum (Fin 0)\<rparr>) =
     \<lparr>queryParams = [], whereQuery = []\<rparr>
   \<and> getAllProperties_query idle_runtime
       (no_options\<lparr>owner_id := JNum (Fin 0), maximum_price_per_night := JNum (Fin 0)\<rparr>) JUndefined =
     (base_select @ ''GROUP BY properties.id ORDER BY cost_per_night'' @ nl @ ''  LIMIT $1;'',
      [JNum (Fin 10)])"
  by (simp add: where_blocks_eq query_closed no_options_def present_filters_def price_filter_def
      numbered_predicates_def where_clause_def having_clause_def having_params_def
      default_limit_def show_nat_small)

text \<open>
  Claim C5, as amended. When the minimum rating passes the test \<^verbatim>\<open>if (options.f)\<close>
  (a rating of 0 does not), the text continues right after
  \<^verbatim>\<open>GROUP BY properties.id\<close> with \<^verbatim>\<open>HAVING AVG(rating) > $k\<close>, whatever the
  \<^verbatim>\<open>WHERE\<close> clause before it is; \<open>k\<close> numbers a new argument, the rating itself,
  which is the last argument before the limit.
\<close>

theorem having_after_group_by:
  assumes "truthy (minimum_rating opts)"
  shows "getAllProperties_query rt opts limit =
     (base_select @ where_clause (whereQuery (where_blocks rt opts)) @ ''GROUP BY properties.id '' @
      ''HAVING AVG(rating) > $'' @ show_nat (Suc (length (queryParams (where_blocks rt opts)))) @ '' '' @
      ''ORDER BY cost_per_night'' @ nl @ ''  LIMIT $'' @
      show_nat (Suc (Suc (length (queryParams (where_blocks rt opts))))) @ '';'',
      queryParams (where_blocks rt opts) @ [minimum_rating opts, default_limit limit])
   \<and> snd (getAllProperties_query rt opts limit) !
       (length (snd (getAllProperties_query rt opts limit)) - 2) = minimum_rating opts
   \<and> last (snd (getAllProperties_query rt opts limit)) = default_limit limit"
  using assms
  by (simp add: query_closed where_blocks_eq having_clause_def having_params_def nth_append)

theorem having_after_group_by_witness:
  "truthy (minimum_rating
     (no_options\<lparr>city := JStr ''van'', owner_id := JNum (Fin 3), minimum_rating := JNum (Fin 4)\<rparr>))
   \<and> getAllProperties_query idle_runtime
       (no_options\<lparr>city := JStr ''van'', owner_id := JNum (Fin 3), minimum_rating := JNum (Fin 4)\<rparr>)
       JUndefined =
     (base_select @ ''WHERE city LIKE $1 AND owner_id = $2 GROUP BY properties.id '' @
      ''HAVING AVG(rating) > $3 ORDER BY cost_per_night'' @ nl @ ''  LIMIT $4;'',
      [JStr ''%van%'', JNum (Fin 3), JNum (Fin 4), JNum (Fin 10)])"
  using having_after_group_by
    [of "no_options\<lparr>city := JStr ''van'', owner_id := JNum (Fin 3), minimum_rating := JNum (Fin 4)\<rparr>"
        idle_runtime JUndefined]
  by (simp add: no_options_def where_blocks_eq present_filters_def price_filter_def
      numbered_predicates_def where_clause_def default_limit_def show_nat_small)

text \<open>
  Claim C5 as stated, a \<^verbatim>\<open>HAVING\<close> clause for every filter with the rating present,
  fails: a filter that supplies the minimum rating 0 gets no \<^verbatim>\<open>HAVING\<close> clause and no
  argument for the rating.
\<close>

theorem supplied_zero_rating_counterexample:
  "getAllProperties_query idle_runtime (no_options\<lparr>minimum_rating := JNum (Fin 0)\<rparr>) JUndefined =
     (base_select @ ''GROUP BY properties.id ORDER BY cost_per_night'' @ nl @ ''  LIMIT $1;'',
      [JNum (Fin 10)])
   \<and> \<not> contains ''HAVING''
       (fst (getAllProperties_query idle_runtime (no_options\<lparr>minimum_rating := JNum (Fin 0)\<rparr>)
          JUndefined))"
proof -
  have q: "getAllProperties_query idle_runtime (no_options\<lparr>minimum_rating := JNum (Fin 0)\<rparr>)
      JUndefined =
     (base_select @ ''GROUP BY properties.id ORDER BY cost_per_night'' @ nl @ ''  LIMIT $1;'',
      [JNum (Fin 10)])"
    by (simp add: query_closed no_options_def present_filters_def price_filter_def
        numbered_predicates_def where_clause_def having_clause_def having_params_def
        default_limit_def show_nat_small)
  show ?thesis
    unfolding q fst_conv using no_having_text by simp
qed

lemma nth_numbered_predicates:
  "i < length frags \<Longrightarrow> numbered_predicates frags ! i = frags ! i @ ''$'' @ show_nat (Suc i) @ '' ''"
  by (simp add: numbered_predicates_def nth_enumerate_eq)

lemma present_filters_minimum:
  assumes "truthy (minimum_price_per_night opts)"
  shows "\<exists>pre post. present_filters rt opts =
       pre @ (''(cost_per_night) >= '',
              JNum (js_times_100 (to_number rt (minimum_price_per_night opts)))) # post
     \<and> length pre = count_true [truthy (city opts), truthy (owner_id opts)]"
proof (intro exI conjI)
  show "present_filters rt opts =
      ((if truthy (city opts)
        then [(''city LIKE '', JStr (''%'' @ to_string rt (city opts) @ ''%''))] else []) @
       (if truthy (owner_id opts) then [(''owner_id = '', owner_id opts)] else [])) @
      (''(cost_per_night) >= '', JNum (js_times_100 (to_number rt (minimum_price_per_night opts)))) #
      price_filter rt ''(cost_per_night) <= '' (maximum_price_per_night opts)"
    using assms by (simp add: present_filters_def price_filter_def)
  show "length ((if truthy (city opts)
        then [(''city LIKE '', JStr (''%'' @ to_string rt (city opts) @ ''%''))] else []) @
       (if truthy (owner_id opts) then [(''owner_id = '', owner_id opts)] else [])) =
     count_true [truthy (city opts), truthy (owner_id opts)]"
    by (simp add: count_true_def)
qed

lemma present_filters_maximum:
  assumes "truthy (maximum_price_per_night opts)"
  shows "\<exists>pre. present_filters rt opts =
       pre @ [(''(cost_per_night) <= '',
               JNum (js_times_100 (to_number rt (maximum_price_per_night opts))))]
     \<and> length pre = count_true [truthy (city opts), truthy (owner_id opts),
                                 truthy (minimum_price_per_night opts)]"
proof (intro exI conjI)
  show "present_filters rt opts =
      ((if truthy (city opts)
        then [(''city LIKE '', JStr (''%'' @ to_string rt (city opts) @ ''%''))] else []) @
       (if truthy (owner_id opts) then [(''owner_id = '', owner_id opts)] else []) @
       price_filter rt ''(cost_per_night) >= '' (minimum_price_per_night opts)) @
      [(''(cost_per_night) <= '', JNum (js_times_100 (to_number rt (maximum_price_per_night opts))))]"
    using assms by (simp add: present_filters_def price_filter_def)
  show "length ((if truthy (city opts)
        then [(''city LIKE '', JStr (''%'' @ to_string rt (city opts) @ ''%''))] else []) @
       (if truthy (owner_id opts) then [(''owner_id = '', owner_id opts)] else []) @
       price_filter rt ''(cost_per_night) >= '' (minimum_price_per_night opts)) =
     count_true [truthy (city opts), truthy (owner_id opts), truthy (minimum_price_per_night opts)]"
    by (simp add: count_true_def length_price_filter)
qed

lemma predicate_at:
  assumes "present_filters rt opts = pre @ (frag, v) # post"
  shows "length pre < length (whereQuery (where_blocks rt opts))
     \<and> whereQuery (where_blocks rt opts) ! length pre = frag @ ''$'' @ show_nat (Suc (length pre)) @ '' ''
     \<and> snd (getAllProperties_query rt opts limit) ! length pre = v"
proof -
  have l: "length pre < length (map fst (present_filters rt opts))"
    using assms by simp
  have "numbered_predicates (map fst (present_filters rt opts)) ! length pre =
      map fst (present_filters rt opts) ! length pre @ ''$'' @ show_nat (Suc (length pre)) @ '' ''"
    using l by (rule nth_numbered_predicates)
  moreover have "map fst (present_filters rt opts) ! length pre = frag"
    using assms by (simp add: nth_append)
  moreover have "snd (getAllProperties_query rt opts limit) ! length pre = v"
    using assms by (simp add: params_closed nth_append)
  ultimately show ?thesis
    using l by (simp add: where_blocks_eq)
qed

lemma minimum_price_at:
  assumes "truthy (minimum_price_per_night opts)"
  shows "count_true [truthy (city opts), truthy (owner_id opts)] < length (whereQuery (where_blocks rt opts))
    \<and> whereQuery (where_blocks rt opts) ! count_true [truthy (city opts), truthy (owner_id opts)] =
        ''(cost_per_night) >= $'' @
        show_nat (Suc (count_true [truthy (city opts), truthy (owner_id opts)])) @ '' ''
    \<and> snd (getAllProperties_query rt opts limit) ! count_true [truthy (city opts), truthy (owner_id opts)] =
        JNum (js_times_100 (to_number rt (minimum_price_per_night opts)))"
proof -
  obtain pre post where
    p: "present_filters rt opts =
      pre @ (''(cost_per_night) >= '',
             JNum (js_times_100 (to_number rt (minimum_price_per_night opts)))) # post"
    and l: "length pre = count_true [truthy (city opts), truthy (owner_id opts)]"
    using present_filters_minimum [OF assms, of rt] by blast
  from predicate_at [OF p, of limit] l show ?thesis by simp
qed

lemma maximum_price_at:
  assumes "truthy (maximum_price_per_night opts)"
  shows "count_true [truthy (city opts), truthy (owner_id opts), truthy (minimum_price_per_night opts)]
        < length (whereQuery (where_blocks rt opts))
    \<and> whereQuery (where_blocks rt opts) !
        count_true [truthy (city opts), truthy (owner_id opts), truthy (minimum_price_per_night opts)] =
        ''(cost_per_night) <= $'' @
        show_nat (Suc (count_true [truthy (city opts), truthy (owner_id opts),
                                   truthy (minimum_price_per_night opts)])) @ '' ''
    \<and> snd (getAllProperties_query rt opts limit) !
        count_true [truthy (city opts), truthy (owner_id opts), truthy (minimum_price_per_night opts)] =
        JNum (js_times_100 (to_number rt (maximum_price_per_night opts)))"
proof -
  obtain pre where
    p: "present_filters rt opts =
      pre @ (''(cost_per_night) <= '',
             JNum (js_times_100 (to_number rt (maximum_price_per_night opts)))) # []"
    and l: "length pre = count_true [truthy (city opts), truthy (owner_id opts),
                                 truthy (minimum_price_per_night opts)]"
    using present_filters_maximum [OF assms, of rt] by blast
  from predicate_at [OF p, of limit] l show ?thesis by simp
qed

text \<open>
  Claim C6, as amended. A minimum price that passes the test \<^verbatim>\<open>if (options.f)\<close> (a
  price of 0 does not) yields the predicate \<^verbatim>\<open>(cost_per_night) >= $k\<close> whose argument,
  at position \<open>k\<close>, is the product in double arithmetic of the price, converted to a
  Number, and 100; such a maximum price yields \<^verbatim>\<open>(cost_per_night) <= $k'\<close> in the same
  way. The positions count the truthy fields that come before. For a price that is an
  integer \<open>n\<close> with \<open>\<bar>n * 100\<bar> \<le> 2 ^ 53\<close> the argument is exactly \<open>n * 100\<close>.
\<close>

theorem price_arguments_times_100:
  "(truthy (minimum_price_per_night opts) \<longrightarrow>
      count_true [truthy (city opts), truthy (owner_id opts)] < length (whereQuery (where_blocks rt opts))
    \<and> whereQuery (where_blocks rt opts) ! count_true [truthy (city opts), truthy (owner_id opts)] =
        ''(cost_per_night) >= $'' @
        show_nat (Suc (count_true [truthy (city opts), truthy (owner_id opts)])) @ '' ''
    \<and> snd (getAllProperties_query rt opts limit) ! count_true [truthy (city opts), truthy (owner_id opts)] =
        JNum (js_times_100 (to_number rt (minimum_price_per_night opts))))
   \<and> (truthy (maximum_price_per_night opts) \<longrightarrow>
      count_true [truthy (city opts), truthy (owner_id opts), truthy (minimum_price_per_night opts)]
        < length (whereQuery (where_blocks rt opts))
    \<and> whereQuery (where_blocks rt opts) !
        count_true [truthy (city opts), truthy (owner_id opts), truthy (minimum_price_per_night opts)] =
        ''(cost_per_night) <= $'' @
        show_nat (Suc (count_true [truthy (city opts), truthy (owner_id opts),
                                   truthy (minimum_price_per_night opts)])) @ '' ''
    \<and> snd (getAllProperties_query rt opts limit) !
        count_true [truthy (city opts), truthy (owner_id opts), truthy (minimum_price_per_night opts)] =
        JNum (js_times_100 (to_number rt (maximum_price_per_night opts))))
   \<and> (minimum_price_per_night opts = JNum (Fin (of_int n)) \<and> n \<noteq> 0 \<and> \<bar>n * 100\<bar> \<le> 2 ^ 53 \<longrightarrow>
      snd (getAllProperties_query rt opts limit) ! count_true [truthy (city opts), truthy (owner_id opts)] =
        JNum (Fin (of_int (n * 100))))
   \<and> (maximum_price_per_night opts = JNum (Fin (of_int m)) \<and> m \<noteq> 0 \<and> \<bar>m * 100\<bar> \<le> 2 ^ 53 \<longrightarrow>
      snd (getAllProperties_query rt opts limit) !
        count_true [truthy (city opts), truthy (owner_id opts), truthy (minimum_price_per_night opts)] =
        JNum (Fin (of_int (m * 100))))"
proof (intro conjI impI)
  assume t: "truthy (minimum_price_per_night opts)"
  from minimum_price_at [OF t, of rt limit]
  show "count_true [truthy (city opts), truthy (owner_id opts)] < length (whereQuery (where_blocks rt opts))"
    and "whereQuery (where_blocks rt opts) ! count_true [truthy (city opts), truthy (owner_id opts)] =
        ''(cost_per_night) >= $'' @
        show_nat (Suc (count_true [truthy (city opts), truthy (owner_id opts)])) @ '' ''"
    and "snd (getAllProperties_query rt opts limit) ! count_true [truthy (city opts), truthy (owner_id opts)] =
        JNum (js_times_100 (to_number rt (minimum_price_per_night opts)))"
    by simp_all
next
  assume t: "truthy (maximum_price_per_night opts)"
  from maximum_price_at [OF t, of rt limit]
  show "count_true [truthy (city opts), truthy (owner_id opts), truthy (minimum_price_per_night opts)]
        < length (whereQuery (where_blocks rt opts))"
    and "whereQuery (where_blocks rt opts) !
        count_true [truthy (city opts), truthy (owner_id opts), truthy (minimum_price_per_night opts)] =
        ''(cost_per_night) <= $'' @
        show_nat (Suc (count_true [truthy (city opts), truthy (owner_id opts),
                                   truthy (minimum_price_per_night opts)])) @ '' ''"
    and "snd (getAllProperties_query rt opts limit) !
        count_true [truthy (city opts), truthy (owner_id opts), truthy (minimum_price_per_night opts)] =
        JNum (js_times_100 (to_number rt (maximum_price_per_night opts)))"
    by simp_all
next
  assume a: "minimum_price_per_night opts = JNum (Fin (of_int n)) \<and> n \<noteq> 0 \<and> \<bar>n * 100\<bar> \<le> 2 ^ 53"
  then have t: "truthy (minimum_price_per_night opts)" by simp
  from a have "js_times_100 (to_number rt (minimum_price_per_night opts)) = Fin (of_int (n * 100))"
    using times_100_int [of n] by simp
  with minimum_price_at [OF t, of rt limit]
  show "snd (getAllProperties_query rt opts limit) ! count_true [truthy (city opts), truthy (owner_id opts)] =
        JNum (Fin (of_int (n * 100)))"
    by simp
next
  assume a: "maximum_price_per_night opts = JNum (Fin (of_int m)) \<and> m \<noteq> 0 \<and> \<bar>m * 100\<bar> \<le> 2 ^ 53"
  then have t: "truthy (maximum_price_per_night opts)" by simp
  from a have "js_times_100 (to_number rt (maximum_price_per_night opts)) = Fin (of_int (m * 100))"
    using times_100_int [of m] by simp
  with maximum_price_at [OF t, of rt limit]
  show "snd (getAllProperties_query rt opts limit) !
        count_true [truthy (city opts), truthy (owner_id opts), truthy (minimum_price_per_night opts)] =
        JNum (Fin (of_int (m * 100)))"
    by simp
qed

theorem price_arguments_times_100_witness:
  "getAllProperties_query idle_runtime
     (no_options\<lparr>city := JStr ''van'', minimum_price_per_night := JNum (Fin 50),
                 maximum_price_per_night := JNum (Fin 120)\<rparr>) (JNum (Fin 5)) =
     (base_select @ ''WHERE city LIKE $1 AND (cost_per_night) >= $2 AND (cost_per_night) <= $3 '' @
      ''GROUP BY properties.id ORDER BY cost_per_night'' @ nl @ ''  LIMIT $4;'',
      [JStr ''%van%'', JNum (Fin 5000), JNum (Fin 12000), JNum (Fin 5)])
   \<and> snd (getAllProperties_query idle_runtime
       (no_options\<lparr>city := JStr ''van'', minimum_price_per_night := JNum (Fin 50),
                   maximum_price_per_night := JNum (Fin 120)\<rparr>) (JNum (Fin 5))) ! 1 =
     JNum (Fin (of_int (50 * 100)))
   \<and> snd (getAllProperties_query idle_runtime
       (no_options\<lparr>city := JStr ''van'', minimum_price_per_night := JNum (Fin 50),
                   maximum_price_per_night := JNum (Fin 120)\<rparr>) (JNum (Fin 5))) ! 2 =
     JNum (Fin (of_int (120 * 100)))"
  using price_arguments_times_100
    [of "no_options\<lparr>city := JStr ''van'', minimum_price_per_night := JNum (Fin 50),
                    maximum_price_per_night := JNum (Fin 120)\<rparr>" idle_runtime "JNum (Fin 5)" 50 120]
  by (simp add: no_options_def query_closed present_filters_def price_filter_def
      numbered_predicates_def where_clause_def having_clause_def having_params_def
      default_limit_def show_nat_small count_true_def round_double_small)

text \<open>
  Claim C6 as stated fails twice. A filter that supplies the minimum price 0 gets no
  predicate and no argument for it. And for the price 9007199254740989, a Number, the
  argument bound is 900719925474098944, the double nearest to the product, while the price
  multiplied by 100 is 900719925474098900.
\<close>

theorem price_times_100_counterexample:
  "getAllProperties_query idle_runtime
     (no_options\<lparr>minimum_price_per_night := JNum (Fin 0)\<rparr>) JUndefined =
     (base_select @ ''GROUP BY properties.id ORDER BY cost_per_night'' @ nl @ ''  LIMIT $1;'',
      [JNum (Fin 10)])
   \<and> snd (getAllProperties_query idle_runtime
       (no_options\<lparr>minimum_price_per_night := JNum (Fin 9007199254740989)\<rparr>) JUndefined) =
     [JNum (Fin 900719925474098944), JNum (Fin 10)]
   \<and> (9007199254740989 :: rat) * 100 = 900719925474098900
   \<and> JNum (Fin 900719925474098944) \<noteq> JNum (Fin (9007199254740989 * 100))"
proof -
  have "js_times_100 (to_number idle_runtime (JNum (Fin 9007199254740989))) = Fin 900719925474098944"
    using times_100_inexact by simp
  then have "snd (getAllProperties_query idle_runtime
       (no_options\<lparr>minimum_price_per_night := JNum (Fin 9007199254740989)\<rparr>) JUndefined) =
     [JNum (Fin 900719925474098944), JNum (Fin 10)]"
    by (simp add: params_closed no_options_def present_filters_def price_filter_def
        default_limit_def del: js_times_100.simps)
  moreover have "getAllProperties_query idle_runtime
     (no_options\<lparr>minimum_price_per_night := JNum (Fin 0)\<rparr>) JUndefined =
     (base_select @ ''GROUP BY properties.id ORDER BY cost_per_night'' @ nl @ ''  LIMIT $1;'',
      [JNum (Fin 10)])"
    by (simp add: query_closed no_options_def present_filters_def price_filter_def
        numbered_predicates_def where_clause_def having_clause_def having_params_def
        default_limit_def show_nat_small)
  ultimately show ?thesis by simp
qed

text \<open>
  Claim C10. A field holding a falsy value is treated as a missing one: the empty string
  as city, 0 as owner identifier, 0 as minimum or maximum price and 0 as minimum rating
  each give the text and the arguments of the same filter without that field.
\<close>

theorem falsy_fields_are_absent:
  "getAllProperties_query rt (opts\<lparr>city := JStr ''''\<rparr>) limit =
     getAllProperties_query rt (opts\<lparr>city := JUndefined\<rparr>) limit
   \<and> getAllProperties_query rt (opts\<lparr>owner_id := JNum (Fin 0)\<rparr>) limit =
     getAllProperties_query rt (opts\<lparr>owner_id := JUndefined\<rparr>) limit
   \<and> getAllProperties_query rt (opts\<lparr>minimum_price_per_night := JNum (Fin 0)\<rparr>) limit =
     getAllProperties_query rt (opts\<lparr>minimum_price_per_night := JUndefined\<rparr>) limit
   \<and> getAllProperties_query rt (opts\<lparr>maximum_price_per_night := JNum (Fin 0)\<rparr>) limit =
     getAllProperties_query rt (opts\<lparr>maximum_price_per_night := JUndefined\<rparr>) limit
   \<and> getAllProperties_query rt (opts\<lparr>minimum_rating := JNum (Fin 0)\<rparr>) limit =
     getAllProperties_query rt (opts\<lparr>minimum_rating := JUndefined\<rparr>) limit"
proof (intro conjI)
  have "present_filters rt (opts\<lparr>city := JStr []\<rparr>) = present_filters rt (opts\<lparr>city := JUndefined\<rparr>)"
    by (simp add: present_filters_def)
  then show "getAllProperties_query rt (opts\<lparr>city := JStr []\<rparr>) limit =
      getAllProperties_query rt (opts\<lparr>city := JUndefined\<rparr>) limit"
    by (simp add: query_closed having_clause_def having_params_def)
  have "present_filters rt (opts\<lparr>owner_id := JNum (Fin 0)\<rparr>) =
      present_filters rt (opts\<lparr>owner_id := JUndefined\<rparr>)"
    by (simp add: present_filters_def)
  then show "getAllProperties_query rt (opts\<lparr>owner_id := JNum (Fin 0)\<rparr>) limit =
      getAllProperties_query rt (opts\<lparr>owner_id := JUndefined\<rparr>) limit"
    by (simp add: query_closed having_clause_def having_params_def)
  have "present_filters rt (opts\<lparr>minimum_price_per_night := JNum (Fin 0)\<rparr>) =
      present_filters rt (opts\<lparr>minimum_price_per_night := JUndefined\<rparr>)"
    by (simp add: present_filters_def price_filter_def)
  then show "getAllProperties_query rt (opts\<lparr>minimum_price_per_night := JNum (Fin 0)\<rparr>) limit =
      getAllProperties_query rt (opts\<lparr>minimum_price_per_night := JUndefined\<rparr>) limit"
    by (simp add: query_closed having_clause_def having_params_def)
  have "present_filters rt (opts\<lparr>maximum_price_per_night := JNum (Fin 0)\<rparr>) =
      present_filters rt (opts\<lparr>maximum_price_per_night := JUndefined\<rparr>)"
    by (simp add: present_filters_def price_filter_def)
  then show "getAllProperties_query rt (opts\<lparr>maximum_price_per_night := JNum (Fin 0)\<rparr>) limit =
      getAllProperties_query rt (opts\<lparr>maximum_price_per_night := JUndefined\<rparr>) limit"
    by (simp add: query_closed having_clause_def having_params_def)
  have "present_filters rt (opts\<lparr>minimum_rating := JNum (Fin 0)\<rparr>) =
      present_filters rt (opts\<lparr>minimum_rating := JUndefined\<rparr>)"
    by (simp add: present_filters_def)
  then show "getAllProperties_query rt (opts\<lparr>minimum_rating := JNum (Fin 0)\<rparr>) limit =
      getAllProperties_query rt (opts\<lparr>minimum_rating := JUndefined\<rparr>) limit"
    by (simp add: query_closed having_clause_def having_params_def)
qed

theorem falsy_fields_are_absent_witness:
  "getAllProperties_query idle_runtime
     (no_options\<lparr>city := JStr [], owner_id := JNum (Fin 4)\<rparr>) (JNum (Fin 3)) =
     (base_select @ ''WHERE owner_id = $1 GROUP BY properties.id ORDER BY cost_per_night'' @ nl @
      ''  LIMIT $2;'', [JNum (Fin 4), JNum (Fin 3)])"
  using falsy_fields_are_absent [of idle_runtime "no_options\<lparr>owner_id := JNum (Fin 4)\<rparr>" "JNum (Fin 3)"]
  by (simp add: no_options_def query_closed present_filters_def price_filter_def
      numbered_predicates_def where_clause_def having_clause_def having_params_def
      default_limit_def show_nat_small)

lemma select_placeholders:
  "placeholders (fst (getAllProperties_query rt opts limit)) =
     [1..<Suc (length (snd (getAllProperties_query rt opts limit)))]"
proof -
  have d: "CHR ''$'' \<notin> set base_select"
    by (simp add: base_select_def nl_def)
  have "placeholders
      (where_clause (numbered_predicates (map fst (present_filters rt opts))) @
      ''GROUP BY properties.id '' @ having_clause opts (map snd (present_filters rt opts)) @
      ''ORDER BY cost_per_night'' @ nl @ ''  LIMIT $'' @
      show_nat (Suc (length (having_params opts (map snd (present_filters rt opts))))) @ '';'') =
     [1..<Suc (Suc (length (having_params opts (map snd (present_filters rt opts)))))]"
    by (cases "truthy (city opts)"; cases "truthy (owner_id opts)";
        cases "truthy (minimum_price_per_night opts)";
        cases "truthy (maximum_price_per_night opts)"; cases "truthy (minimum_rating opts)")
       (simp_all add: present_frags length_present_filters count_true_def where_clause_def
          numbered_predicates_def having_clause_def having_params_def nl_def)
  then show ?thesis
    by (simp add: query_closed placeholders_no_dollar [OF d])
qed

section \<open>Properties of the generated INSERT\<close>

lemma values_loop_eq:
  "values_loop p keys (qp, vi) =
     (qp @ map (get_prop p) keys,
      vi @ concat (map (\<lambda>i. placeholder (Suc (length qp + i)) @ '', '') [0..<length keys]))"
proof (induction keys arbitrary: qp vi)
  case Nil
  then show ?case by simp
next
  case (Cons k ks)
  have "values_loop p (k # ks) (qp, vi) =
      values_loop p ks (qp @ [get_prop p k], vi @ placeholder (Suc (length qp)) @ '', '')"
    by (simp add: Let_def placeholder_def)
  also have "\<dots> =
      ((qp @ [get_prop p k]) @ map (get_prop p) ks,
       (vi @ placeholder (Suc (length qp)) @ '', '') @
       concat (map (\<lambda>i. placeholder (Suc (length (qp @ [get_prop p k]) + i)) @ '', '') [0..<length ks]))"
    by (rule Cons.IH)
  also have "\<dots> =
      (qp @ map (get_prop p) (k # ks),
       vi @ concat (map (\<lambda>i. placeholder (Suc (length qp + i)) @ '', '') [0..<length (k # ks)]))"
    by (simp add: map_upt_Suc del: upt_Suc)
  finally show ?case .
qed

lemma placeholders_from_1:
  "map (\<lambda>i. placeholder (Suc i)) [0..<n] = map placeholder [1..<Suc n]"
proof -
  have "map placeholder (map Suc [0..<n]) = map placeholder [Suc 0..<Suc n]"
    by (simp only: map_Suc_upt)
  then show ?thesis by (simp add: comp_def del: upt_Suc)
qed

lemma slice_0_m2_append:
  "2 \<le> length r \<Longrightarrow> slice_0_m2 (a @ r) = a @ slice_0_m2 r"
  by (simp add: slice_0_m2_def)

lemma slice_join:
  "slice_0_m2 (concat (map (\<lambda>x. f x @ '', '') xs)) = join '', '' (map f xs)"
proof (induction xs rule: induct_list012)
  case 1
  then show ?case by (simp add: slice_0_m2_def)
next
  case (2 x)
  then show ?case by (simp add: slice_0_m2_def)
next
  case (3 x y zs)
  have "2 \<le> length (concat (map (\<lambda>x. f x @ '', '') (y # zs)))"
    by simp
  then have "slice_0_m2 ((f x @ '', '') @ concat (map (\<lambda>x. f x @ '', '') (y # zs))) =
      (f x @ '', '') @ slice_0_m2 (concat (map (\<lambda>x. f x @ '', '') (y # zs)))"
    by (rule slice_0_m2_append)
  with 3(2) show ?case by simp
qed

lemma addProperty_query_closed:
  "addProperty_query p =
     (''INSERT INTO properties ('' @ join '', '' (map fst p) @ '') '' @ nl @ ''  VALUES ('' @
      join '', '' (map placeholder [1..<Suc (length p)]) @ '')'' @ nl @ ''  RETURNING *;'',
      map (get_prop p) (map fst p))"
proof -
  have "slice_0_m2 (concat (map (\<lambda>i. placeholder (Suc i) @ '', '') [0..<length p])) =
      join '', '' (map (\<lambda>i. placeholder (Suc i)) [0..<length p])"
    by (rule slice_join)
  then show ?thesis
    by (simp add: addProperty_query_def object_keys_def values_loop_eq Let_def
        placeholders_from_1 del: upt_Suc)
qed

lemma get_prop_distinct:
  "distinct (map fst p) \<Longrightarrow> map (get_prop p) (map fst p) = map snd p"
proof (induction p)
  case Nil
  then show ?case by simp
next
  case (Cons kv p)
  obtain k v where kv: "kv = (k, v)" by (cases kv)
  from Cons.prems kv have k: "k \<notin> fst ` set p" and d: "distinct (map fst p)"
    by simp_all
  have "map (get_prop ((k, v) # p)) (map fst p) = map (get_prop p) (map fst p)"
    using k by (auto simp: get_prop_def)
  with Cons.IH [OF d] show ?case
    by (simp add: kv get_prop_def)
qed

lemma join_no_dollar:
  "\<forall>k\<in>set ks. CHR ''$'' \<notin> set k \<Longrightarrow> CHR ''$'' \<notin> set sep \<Longrightarrow> CHR ''$'' \<notin> set (join sep ks)"
  by (induction ks rule: induct_list012) auto

lemma placeholders_join:
  "placeholders (join '', '' (map placeholder ns) @ CHR '')'' # r) = ns @ placeholders r"
proof (induction ns rule: induct_list012)
  case 1
  then show ?case by simp
next
  case (2 n)
  then show ?case by (simp add: placeholder_def)
next
  case (3 n m ns)
  then show ?case by (simp add: placeholder_def)
qed

section \<open>The LIKE match\<close>







section \<open>Placeholders, the city match, inserts and failures\<close>

lemma takeWhile_before_stop:
  "\<not> P c \<Longrightarrow> takeWhile P (xs @ c # r) = takeWhile P xs"
  by (induction xs) simp_all

lemma dropWhile_before_stop:
  "\<not> P c \<Longrightarrow> dropWhile P (xs @ c # r) = dropWhile P xs @ c # r"
  by (induction xs) simp_all

lemma placeholders_append_stop:
  "\<not> is_digit c \<Longrightarrow> placeholders (a @ c # r) = placeholders a @ placeholders (c # r)"
proof (induction a rule: placeholders.induct)
  case 1
  then show ?case by simp
next
  case (2 x xs)
  then show ?case
    by (simp add: takeWhile_before_stop dropWhile_before_stop del: placeholders.simps(2)
        add: placeholders.simps(2) [of x xs] placeholders.simps(2) [of x "xs @ c # r"])
qed

lemma insert_placeholders_general:
  "placeholders (fst (addProperty_query p)) =
     placeholders (join '', '' (object_keys p)) @ [1..<Suc (length (snd (addProperty_query p)))]"
proof -
  let ?cols = "join '', '' (object_keys p)"
  let ?vals = "join '', '' (map placeholder [1..<Suc (length p)])"
  have "placeholders (fst (addProperty_query p)) =
      placeholders (''INSERT INTO properties ('' @ ?cols @ CHR '')'' # ('' '' @ nl @ ''  VALUES ('' @
        ?vals @ CHR '')'' # nl @ ''  RETURNING *;''))"
    by (simp add: addProperty_query_closed object_keys_def del: upt_Suc)
  also have "\<dots> = placeholders (?cols @ CHR '')'' # ('' '' @ nl @ ''  VALUES ('' @
        ?vals @ CHR '')'' # nl @ ''  RETURNING *;''))"
    by (rule placeholders_no_dollar) simp
  also have "\<dots> = placeholders ?cols @ placeholders (CHR '')'' # ('' '' @ nl @ ''  VALUES ('' @
        ?vals @ CHR '')'' # nl @ ''  RETURNING *;''))"
    by (rule placeholders_append_stop) simp
  also have "placeholders (CHR '')'' # ('' '' @ nl @ ''  VALUES ('' @
        ?vals @ CHR '')'' # nl @ ''  RETURNING *;'')) =
      placeholders (('') '' @ nl @ ''  VALUES ('') @ (?vals @ CHR '')'' # nl @ ''  RETURNING *;''))"
    by simp
  also have "\<dots> = placeholders (?vals @ CHR '')'' # nl @ ''  RETURNING *;'')"
    by (rule placeholders_no_dollar) (simp add: nl_def)
  also have "\<dots> = [1..<Suc (length p)] @ placeholders (nl @ ''  RETURNING *;'')"
    by (rule placeholders_join)
  finally show ?thesis
    by (simp add: addProperty_query_closed nl_def del: upt_Suc)
qed

lemma placeholders_without_dollar: "CHR ''$'' \<notin> set a \<Longrightarrow> placeholders a = []"
  using placeholders_no_dollar [of a "[]"] by simp

text \<open>
  Claim C2, as amended. The placeholders of the text, read left to right, are exactly
  1, 2, ..., N where N is the number of arguments: for \<^verbatim>\<open>getAllProperties\<close> with every
  filter and limit, and for \<^verbatim>\<open>addProperty\<close> with every object none of whose keys
  contains the character \<^verbatim>\<open>$\<close>. In general the text of \<^verbatim>\<open>addProperty\<close> holds the
  placeholders that its column list holds (the keys are written into the text as they
  are), followed by 1, 2, ..., N.
\<close>

theorem placeholders_match_arguments:
  "placeholders (fst (getAllProperties_query rt opts limit)) =
     [1..<Suc (length (snd (getAllProperties_query rt opts limit)))]
   \<and> placeholders (fst (addProperty_query p)) =
     placeholders (join '', '' (object_keys p)) @ [1..<Suc (length (snd (addProperty_query p)))]
   \<and> ((\<forall>k\<in>set (object_keys p). CHR ''$'' \<notin> set k) \<longrightarrow>
        placeholders (fst (addProperty_query p)) = [1..<Suc (length (snd (addProperty_query p)))])"
proof (intro conjI impI)
  show "placeholders (fst (getAllProperties_query rt opts limit)) =
     [1..<Suc (length (snd (getAllProperties_query rt opts limit)))]"
    by (rule select_placeholders)
  show g: "placeholders (fst (addProperty_query p)) =
     placeholders (join '', '' (object_keys p)) @ [1..<Suc (length (snd (addProperty_query p)))]"
    by (rule insert_placeholders_general)
  assume "\<forall>k\<in>set (object_keys p). CHR ''$'' \<notin> set k"
  then have "CHR ''$'' \<notin> set (join '', '' (object_keys p))"
    using join_no_dollar [of "object_keys p" "'', ''"] by simp
  then have "placeholders (join '', '' (object_keys p)) = []"
    by (rule placeholders_without_dollar)
  with g show "placeholders (fst (addProperty_query p)) = [1..<Suc (length (snd (addProperty_query p)))]"
    by simp
qed

theorem placeholders_match_arguments_witness:
  "placeholders (fst (getAllProperties_query idle_runtime
       (no_options\<lparr>owner_id := JNum (Fin 7), maximum_price_per_night := JNum (Fin 90),
                   minimum_rating := JNum (Fin 3)\<rparr>)
       JUndefined)) = [1, 2, 3, 4]
   \<and> snd (getAllProperties_query idle_runtime
       (no_options\<lparr>owner_id := JNum (Fin 7), maximum_price_per_night := JNum (Fin 90),
                   minimum_rating := JNum (Fin 3)\<rparr>)
       JUndefined) = [JNum (Fin 7), JNum (Fin 9000), JNum (Fin 3), JNum (Fin 10)]
   \<and> placeholders (fst (addProperty_query [(''name'', JStr ''Cabin''), (''cost_per_night'', JNum (Fin 5000))])) =
       [1, 2]
   \<and> snd (addProperty_query [(''name'', JStr ''Cabin''), (''cost_per_night'', JNum (Fin 5000))]) =
       [JStr ''Cabin'', JNum (Fin 5000)]"
  using placeholders_match_arguments
    [of idle_runtime
        "no_options\<lparr>owner_id := JNum (Fin 7), maximum_price_per_night := JNum (Fin 90),
                    minimum_rating := JNum (Fin 3)\<rparr>"
        JUndefined "[(''name'', JStr ''Cabin''), (''cost_per_night'', JNum (Fin 5000))]"]
  by (simp add: params_closed no_options_def present_filters_def price_filter_def default_limit_def
      addProperty_query_closed object_keys_def get_prop_def round_double_small)

text \<open>
  Claim C2 as stated, for every input object, fails: the key \<^verbatim>\<open>$1\<close> is copied into the
  column list, so the text holds placeholder 1 twice while there is one argument.
\<close>

theorem placeholders_dollar_key_counterexample:
  "fst (addProperty_query [(''$1'', JStr ''x'')]) =
     ''INSERT INTO properties ($1) '' @ nl @ ''  VALUES ($1)'' @ nl @ ''  RETURNING *;''
   \<and> snd (addProperty_query [(''$1'', JStr ''x'')]) = [JStr ''x'']
   \<and> placeholders (fst (addProperty_query [(''$1'', JStr ''x'')])) = [1, 1]"
  by (simp add: addProperty_query_def object_keys_def get_prop_def slice_0_m2_def nl_def
      show_nat_small is_digit_def read_nat_def digit_val_def)





lemma length_get_props: "length (snd (addProperty_query p)) = length (object_keys p)"
  by (simp add: addProperty_query_closed object_keys_def)

text \<open>
  Claim C7. For a non-empty object the column list is the keys in iteration order, the
  values list is the placeholders 1 to n, and the arguments are the values read under
  these keys in the same order: with distinct keys, as the keys of an object are, the
  values of the pairs themselves, so that column i, placeholder i and argument i belong
  together; the text is
  \<^verbatim>\<open>INSERT INTO properties (<columns>) VALUES (<placeholders>) RETURNING *;\<close> over three
  lines. The object with keys \<^verbatim>\<open>name\<close> and \<^verbatim>\<open>cost_per_night\<close> gives the two-column
  insert with arguments \<^verbatim>\<open>"Cabin"\<close> and 5000.
\<close>

theorem insert_columns_follow_keys:
  assumes "p \<noteq> []"
  shows "addProperty_query p =
     (''INSERT INTO properties ('' @ join '', '' (object_keys p) @ '') '' @ nl @ ''  VALUES ('' @
      join '', '' (map placeholder [1..<Suc (length (object_keys p))]) @ '')'' @ nl @
      ''  RETURNING *;'',
      map (get_prop p) (object_keys p))
   \<and> length (snd (addProperty_query p)) = length (object_keys p)
   \<and> (distinct (object_keys p) \<longrightarrow>
        snd (addProperty_query p) = map snd p
      \<and> (\<forall>i<length p. object_keys p ! i = fst (p ! i) \<and> snd (addProperty_query p) ! i = snd (p ! i)))
   \<and> addProperty_query [(''name'', JStr ''Cabin''), (''cost_per_night'', JNum (Fin 5000))] =
     (''INSERT INTO properties (name, cost_per_night) '' @ nl @ ''  VALUES ($1, $2)'' @ nl @
      ''  RETURNING *;'', [JStr ''Cabin'', JNum (Fin 5000)])"
proof (intro conjI impI)
  show "addProperty_query p =
     (''INSERT INTO properties ('' @ join '', '' (object_keys p) @ '') '' @ nl @ ''  VALUES ('' @
      join '', '' (map placeholder [1..<Suc (length (object_keys p))]) @ '')'' @ nl @
      ''  RETURNING *;'',
      map (get_prop p) (object_keys p))"
    by (simp add: addProperty_query_closed object_keys_def del: upt_Suc)
  show "length (snd (addProperty_query p)) = length (object_keys p)"
    by (rule length_get_props)
  show "addProperty_query [(''name'', JStr ''Cabin''), (''cost_per_night'', JNum (Fin 5000))] =
     (''INSERT INTO properties (name, cost_per_night) '' @ nl @ ''  VALUES ($1, $2)'' @ nl @
      ''  RETURNING *;'', [JStr ''Cabin'', JNum (Fin 5000)])"
    by (simp add: addProperty_query_def object_keys_def get_prop_def slice_0_m2_def show_nat_small)
next
  assume "distinct (object_keys p)"
  then have "map (get_prop p) (map fst p) = map snd p"
    unfolding object_keys_def by (rule get_prop_distinct)
  then show v: "snd (addProperty_query p) = map snd p"
    by (simp add: addProperty_query_closed)
  show "\<forall>i<length p. object_keys p ! i = fst (p ! i) \<and> snd (addProperty_query p) ! i = snd (p ! i)"
    unfolding v by (simp add: object_keys_def)
qed

theorem insert_columns_follow_keys_witness:
  "[(''title'', JStr ''Loft''), (''owner_id'', JNum (Fin 3)), (''city'', JStr ''Sotboske'')] \<noteq> []
   \<and> distinct (object_keys [(''title'', JStr ''Loft''), (''owner_id'', JNum (Fin 3)), (''city'', JStr ''Sotboske'')])
   \<and> addProperty_query [(''title'', JStr ''Loft''), (''owner_id'', JNum (Fin 3)), (''city'', JStr ''Sotboske'')] =
     (''INSERT INTO properties (title, owner_id, city) '' @ nl @ ''  VALUES ($1, $2, $3)'' @ nl @
      ''  RETURNING *;'', [JStr ''Loft'', JNum (Fin 3), JStr ''Sotboske''])"
  using insert_columns_follow_keys
    [of "[(''title'', JStr ''Loft''), (''owner_id'', JNum (Fin 3)), (''city'', JStr ''Sotboske'')]"]
  by (simp add: object_keys_def get_prop_def placeholder_def show_nat_small upt_conv_Cons)

text \<open>
  Claim C8 as stated, a validation error for an object without keys, fails: the function
  has no check, and builds a text with empty column and value lists and no argument.
\<close>

theorem empty_record_query_counterexample:
  "addProperty_query [] =
     (''INSERT INTO properties () '' @ nl @ ''  VALUES ()'' @ nl @ ''  RETURNING *;'', [])"
  by (simp add: addProperty_query_def object_keys_def slice_0_m2_def)

lemma run_query:
  "catch_log (then_p f p) console =
     (case p of Fulfilled res \<Rightarrow> (Fulfilled (f res), console)
      | Rejected e \<Rightarrow> (Fulfilled RUndefined, console @ [e]))"
  by (cases p) (simp_all add: catch_log_def then_p_def)

text \<open>
  Claim C8, as amended. For an object without keys \<^verbatim>\<open>addProperty\<close> raises nothing: it
  sends \<^verbatim>\<open>INSERT INTO properties () VALUES () RETURNING *;\<close> with no argument to the
  pool, and returns the rows when the query is fulfilled, \<^verbatim>\<open>undefined\<close> after logging
  the message when it is rejected.
\<close>

theorem empty_record_is_sent:
  "addProperty pool_query (ArgObject []) console =
     Inr (case pool_query
                 (''INSERT INTO properties () '' @ nl @ ''  VALUES ()'' @ nl @ ''  RETURNING *;'') [] of
            Fulfilled res \<Rightarrow> (Fulfilled (RValue (rows res)), console)
          | Rejected e \<Rightarrow> (Fulfilled RUndefined, console @ [e]))"
proof -
  have "addProperty_query [] =
      (''INSERT INTO properties () '' @ nl @ ''  VALUES ()'' @ nl @ ''  RETURNING *;'', [])"
    by (simp add: addProperty_query_def object_keys_def slice_0_m2_def)
  then have "addProperty pool_query (ArgObject []) console =
      Inr (catch_log (then_p (\<lambda>res. RValue (rows res))
        (pool_query (''INSERT INTO properties () '' @ nl @ ''  VALUES ()'' @ nl @ ''  RETURNING *;'') []))
        console)"
    by (simp add: addProperty_def)
  then show ?thesis
    by (simp only: run_query)
qed

theorem empty_record_is_sent_witness:
  "addProperty empty_pool (ArgObject []) [] = Inr (Fulfilled (RValue []), [])
   \<and> addProperty failing_pool (ArgObject []) [] =
     Inr (Fulfilled RUndefined, [''Connection terminated unexpectedly''])"
  using empty_record_is_sent [of empty_pool "[]"] empty_record_is_sent [of failing_pool "[]"]
  by (simp add: empty_pool_def failing_pool_def)




end
